theory Spec2Isabelle
  imports Complex_Main "HOL-Library.Multiset" "HOL-Library.List_Lexorder" "HOL-Library.Char_ord"
begin

section \<open>Data model of \<^verbatim>\<open>src/app/main.py\<close>\<close>

text \<open>
  The two tables of the application are modelled as lists of rows, kept in the order in
  which the rows were inserted (the order of their row ids). Identifiers and years are
  Python integers (\<^typ>\<open>int\<close>). A \<^verbatim>\<open>DateTime\<close> value is a point on a linear time axis,
  modelled as an integer number of microseconds. Requests are served one after the other,
  each on the storage its predecessor left; a failed request leaves the storage unchanged,
  since its session is closed without a commit.

  Amounts are the columns declared \<^verbatim>\<open>Float\<close>. An amount is modelled by the real number
  that the stored double denotes. The results of floating-point operations on amounts
  (the \<^verbatim>\<open>SUM\<close> of the storage, the subtraction of Python) are rounded doubles; the model
  does not compute them. It records which operation is applied to which operands, in the
  type \<open>number\<close> below.
\<close>

type_synonym datetime = int

text \<open>\<^verbatim>\<open>class Expense(Base)\<close>, table \<^verbatim>\<open>expenses\<close>.\<close>

record Expense =
  e_id :: int
  e_title :: string
  e_amount :: real
  e_category :: string
  e_description :: "string option"
  e_date :: datetime

text \<open>\<^verbatim>\<open>class Budget(Base)\<close>, table \<^verbatim>\<open>budgets\<close>; the column \<^verbatim>\<open>category\<close> is declared
  \<^verbatim>\<open>unique=True\<close>.\<close>

record Budget =
  b_id :: int
  b_category :: string
  b_amount :: real
  b_month :: string
  b_year :: int

text \<open>\<^verbatim>\<open>class ExpenseCreate(BaseModel)\<close>: the request payload of create and update.\<close>

record ExpenseCreate =
  title :: string
  amount :: real
  category :: string
  description :: "string option"

text \<open>
  A key of a JSON request body is either absent or present. The payload class declares
  \<^verbatim>\<open>description: Optional[str] = None\<close>: an absent key takes the default \<^verbatim>\<open>None\<close>,
  a present key carries a string or \<^verbatim>\<open>null\<close>. The other three fields are required.
\<close>

datatype 'a field = Omitted | Supplied 'a

definition mk_ExpenseCreate ::
  "string \<Rightarrow> real \<Rightarrow> string \<Rightarrow> string option field \<Rightarrow> ExpenseCreate" where
  "mk_ExpenseCreate t a c d =
     \<lparr>title = t, amount = a, category = c,
      description = (case d of Omitted \<Rightarrow> None | Supplied v \<Rightarrow> v)\<rparr>"

text \<open>\<^verbatim>\<open>class BudgetCreate(BaseModel)\<close>: the request payload of the budget upsert.\<close>

record BudgetCreate =
  bc_category :: string
  bc_amount :: real
  bc_month :: string
  bc_year :: int

text \<open>The storage behind a session \<^verbatim>\<open>db\<close>: the rows of the two tables.\<close>

record database =
  db_expenses :: "Expense list"
  db_budgets :: "Budget list"

definition empty_db :: database where
  "empty_db = \<lparr>db_expenses = [], db_budgets = []\<rparr>"

text \<open>
  The failures of a request: an \<^verbatim>\<open>HTTPException\<close> raised by a handler, with its status
  code and detail; the \<^verbatim>\<open>IntegrityError\<close> that \<^verbatim>\<open>db.commit()\<close> raises when an insert
  violates a uniqueness constraint of the schema; and the \<^verbatim>\<open>OverflowError\<close> that a query
  raises when an integer bound into it does not fit the signed 64-bit integer of the
  storage. No handler catches the last two.
\<close>

datatype error = HTTPException nat string | IntegrityError | OverflowError

abbreviation NotFound :: error where
  "NotFound \<equiv> HTTPException 404 ''Expense not found''"

section \<open>Storage primitives\<close>

text \<open>The integers that the storage holds and that a query accepts as a parameter.\<close>

definition int64 :: "int \<Rightarrow> bool" where
  "int64 i \<longleftrightarrow> - 9223372036854775808 \<le> i \<and> i \<le> 9223372036854775807"

text \<open>
  An \<^verbatim>\<open>Integer\<close> primary key column is an alias of the row id: a row inserted without
  an id gets 1 in an empty table and one more than the largest id otherwise. This is the
  rule of the storage as long as the largest id is below the largest 64-bit integer; a
  table that has reached it is given an unused id picked at random, which the model does
  not follow.
\<close>

definition next_rowid :: "int list \<Rightarrow> int" where
  "next_rowid ids = (if ids = [] then 1 else Max (set ids) + 1)"

text \<open>
  A numeric result of the summary. \<open>IntZero\<close> is the integer 0 that \<^verbatim>\<open>COALESCE\<close> puts
  for \<^verbatim>\<open>NULL\<close>; \<open>SqlSum\<close> is the double that \<^verbatim>\<open>SUM\<close> accumulates over the given amounts,
  in the order in which the storage visits them; \<open>PySub\<close> is the difference that Python
  computes from two such results.
\<close>

datatype number = IntZero | SqlSum "real multiset" | PySub number number

text \<open>\<^verbatim>\<open>SUM(amount)\<close> is \<^verbatim>\<open>NULL\<close> over no rows; \<^verbatim>\<open>COALESCE(x, 0)\<close> replaces \<^verbatim>\<open>NULL\<close> by 0.\<close>

definition sql_sum :: "real list \<Rightarrow> number option" where
  "sql_sum xs = (if xs = [] then None else Some (SqlSum (mset xs)))"

definition coalesce :: "number option \<Rightarrow> number \<Rightarrow> number" where
  "coalesce x d = (case x of None \<Rightarrow> d | Some v \<Rightarrow> v)"

text \<open>
  \<^verbatim>\<open>SELECT category, SUM(amount) ... GROUP BY category\<close>: one result row for each
  category that occurs, in the order of the categories, with the \<^verbatim>\<open>SUM\<close> over the rows
  of that category. A group has at least one row, so its \<^verbatim>\<open>SUM\<close> is not \<^verbatim>\<open>NULL\<close>.
\<close>

definition group_by_sum :: "(string \<times> real) list \<Rightarrow> (string \<times> number) list" where
  "group_by_sum rows =
     map (\<lambda>c. (c, SqlSum (mset (map snd (filter (\<lambda>r. fst r = c) rows)))))
         (sort (remdups (map fst rows)))"

text \<open>\<^verbatim>\<open>order_by(Expense.date.desc())\<close>: rows by descending date; rows of equal date keep
  their storage order.\<close>

definition order_by_date_desc :: "Expense list \<Rightarrow> Expense list" where
  "order_by_date_desc rows = sort_key (\<lambda>e. - e_date e) rows"

section \<open>Expense endpoints\<close>

definition create_expense :: "ExpenseCreate \<Rightarrow> datetime \<Rightarrow> database \<Rightarrow> Expense \<times> database" where
  "create_expense expense now db =
     (let db_expense =
            \<lparr>e_id = next_rowid (map e_id (db_expenses db)),
             e_title = title expense,
             e_amount = amount expense,
             e_category = category expense,
             e_description = description expense,
             e_date = now\<rparr>
      in (db_expense, db\<lparr>db_expenses := db_expenses db @ [db_expense]\<rparr>))"

text \<open>\<^verbatim>\<open>offset(skip).limit(limit)\<close>: both integers are bound into the query; a negative
  offset skips nothing, a negative limit does not limit.\<close>

definition get_expenses ::
  "int \<Rightarrow> int \<Rightarrow> database \<Rightarrow> (error + Expense list) \<times> database" where
  "get_expenses skip limit db =
     (if \<not> int64 skip \<or> \<not> int64 limit then (Inl OverflowError, db)
      else let rows = drop (nat skip) (db_expenses db)
           in (Inr (if limit < 0 then rows else take (nat limit) rows), db))"

text \<open>
  The three handlers below start with the query
  \<^verbatim>\<open>db.query(Expense).filter(Expense.id == expense_id).first()\<close>, which binds the
  \<^verbatim>\<open>expense_id\<close> of the path; the test \<^verbatim>\<open>is None\<close> comes after it.
\<close>

definition get_expense :: "int \<Rightarrow> database \<Rightarrow> (error + Expense) \<times> database" where
  "get_expense expense_id db =
     (if \<not> int64 expense_id then (Inl OverflowError, db)
      else case List.find (\<lambda>e. e_id e = expense_id) (db_expenses db) of
             None \<Rightarrow> (Inl NotFound, db)
           | Some expense \<Rightarrow> (Inr expense, db))"

text \<open>The loop \<^verbatim>\<open>for key, value in expense.dict().items(): setattr(db_expense, key, value)\<close>.\<close>

definition set_attrs :: "ExpenseCreate \<Rightarrow> Expense \<Rightarrow> Expense" where
  "set_attrs expense db_expense =
     db_expense\<lparr>e_title := title expense,
                e_amount := amount expense,
                e_category := category expense,
                e_description := description expense\<rparr>"

definition update_expense ::
  "int \<Rightarrow> ExpenseCreate \<Rightarrow> database \<Rightarrow> (error + Expense) \<times> database" where
  "update_expense expense_id expense db =
     (if \<not> int64 expense_id then (Inl OverflowError, db)
      else case List.find (\<lambda>e. e_id e = expense_id) (db_expenses db) of
             None \<Rightarrow> (Inl NotFound, db)
           | Some db_expense \<Rightarrow>
               (Inr (set_attrs expense db_expense),
                db\<lparr>db_expenses :=
                      map (\<lambda>e. if e_id e = expense_id then set_attrs expense e else e)
                          (db_expenses db)\<rparr>))"

definition delete_expense :: "int \<Rightarrow> database \<Rightarrow> (error + string) \<times> database" where
  "delete_expense expense_id db =
     (if \<not> int64 expense_id then (Inl OverflowError, db)
      else case List.find (\<lambda>e. e_id e = expense_id) (db_expenses db) of
             None \<Rightarrow> (Inl NotFound, db)
           | Some db_expense \<Rightarrow>
               (Inr ''Expense deleted successfully'',
                db\<lparr>db_expenses := filter (\<lambda>e. e_id e \<noteq> expense_id) (db_expenses db)\<rparr>))"

section \<open>Budget endpoints\<close>

text \<open>The filter of the lookup in \<^verbatim>\<open>create_budget\<close>: equal category, month and year.\<close>

definition same_key :: "BudgetCreate \<Rightarrow> Budget \<Rightarrow> bool" where
  "same_key budget b \<longleftrightarrow>
     b_category b = bc_category budget \<and> b_month b = bc_month budget \<and> b_year b = bc_year budget"

text \<open>
  \<^verbatim>\<open>create_budget\<close>: the lookup binds the year of the payload into its query. If it finds
  a row, the amount of that row is overwritten and the row is returned. Otherwise a new
  row is added; on \<^verbatim>\<open>db.commit()\<close> the table accepts it only if no stored row has its
  category (\<^verbatim>\<open>unique=True\<close> on \<^verbatim>\<open>Budget.category\<close>), and raises an \<^verbatim>\<open>IntegrityError\<close>
  otherwise, leaving the table as it was.
\<close>

definition create_budget :: "BudgetCreate \<Rightarrow> database \<Rightarrow> (error + Budget) \<times> database" where
  "create_budget budget db =
     (if \<not> int64 (bc_year budget) then (Inl OverflowError, db)
      else case List.find (same_key budget) (db_budgets db) of
        Some existing_budget \<Rightarrow>
          (Inr (existing_budget\<lparr>b_amount := bc_amount budget\<rparr>),
           db\<lparr>db_budgets :=
                 map (\<lambda>b. if b_id b = b_id existing_budget
                           then b\<lparr>b_amount := bc_amount budget\<rparr> else b)
                     (db_budgets db)\<rparr>)
      | None \<Rightarrow>
          (let db_budget =
                 \<lparr>b_id = next_rowid (map b_id (db_budgets db)),
                  b_category = bc_category budget,
                  b_amount = bc_amount budget,
                  b_month = bc_month budget,
                  b_year = bc_year budget\<rparr>
           in if bc_category budget \<in> set (map b_category (db_budgets db))
              then (Inl IntegrityError, db)
              else (Inr db_budget, db\<lparr>db_budgets := db_budgets db @ [db_budget]\<rparr>)))"

definition get_budgets :: "database \<Rightarrow> Budget list \<times> database" where
  "get_budgets db = (db_budgets db, db)"

section \<open>Analytics endpoint\<close>

record Summary =
  total_expenses :: number
  total_budget :: number
  remaining_budget :: number
  category_expenses :: "(string \<times> number) list"
  recent_expenses :: "Expense list"

definition get_summary :: "database \<Rightarrow> Summary \<times> database" where
  "get_summary db =
     (let total_expenses = coalesce (sql_sum (map e_amount (db_expenses db))) IntZero;
          total_budget = coalesce (sql_sum (map b_amount (db_budgets db))) IntZero;
          category_expenses =
            group_by_sum (map (\<lambda>e. (e_category e, e_amount e)) (db_expenses db));
          recent_expenses = take 5 (order_by_date_desc (db_expenses db))
      in (\<lparr>total_expenses = total_expenses,
           total_budget = total_budget,
           remaining_budget = PySub total_budget total_expenses,
           category_expenses = category_expenses,
           recent_expenses = recent_expenses\<rparr>, db))"

section \<open>Requests and reachable states\<close>

datatype request =
    CreateExpense ExpenseCreate datetime
  | GetExpenses int int
  | GetExpense int
  | UpdateExpense int ExpenseCreate
  | DeleteExpense int
  | CreateBudget BudgetCreate
  | GetBudgets
  | GetSummary

text \<open>The storage after a request has been served.\<close>

fun serve :: "request \<Rightarrow> database \<Rightarrow> database" where
  "serve (CreateExpense expense now) db = snd (create_expense expense now db)"
| "serve (GetExpenses skip limit) db = snd (get_expenses skip limit db)"
| "serve (GetExpense expense_id) db = snd (get_expense expense_id db)"
| "serve (UpdateExpense expense_id expense) db = snd (update_expense expense_id expense db)"
| "serve (DeleteExpense expense_id) db = snd (delete_expense expense_id db)"
| "serve (CreateBudget budget) db = snd (create_budget budget db)"
| "serve GetBudgets db = snd (get_budgets db)"
| "serve GetSummary db = snd (get_summary db)"

text \<open>The storage reached from the empty database by serving a sequence of requests.\<close>

definition run :: "request list \<Rightarrow> database" where
  "run rs = fold serve rs empty_db"

text \<open>At most one budget row per (category, month, year).\<close>

definition budget_key :: "Budget \<Rightarrow> string \<times> string \<times> int" where
  "budget_key b = (b_category b, b_month b, b_year b)"

definition budget_keys_unique :: "database \<Rightarrow> bool" where
  "budget_keys_unique db \<longleftrightarrow> distinct (map budget_key (db_budgets db))"

text \<open>A table with a primary key holds at most one row per id.\<close>

definition expense_ids_unique :: "database \<Rightarrow> bool" where
  "expense_ids_unique db \<longleftrightarrow> distinct (map e_id (db_expenses db))"

text \<open>The table of expenses has an id left to give by the rule of \<open>next_rowid\<close>.\<close>

definition expense_rowid_available :: "database \<Rightarrow> bool" where
  "expense_rowid_available db \<longleftrightarrow> int64 (next_rowid (map e_id (db_expenses db)))"

section \<open>Example requests and states\<close>

text \<open>Three expenses created one after the other in an empty database: Food 50, Food 30
  and Transport 20; and six expenses, these three followed by three more.\<close>

definition lunch :: ExpenseCreate where
  "lunch = mk_ExpenseCreate ''Lunch'' 50 ''Food'' (Supplied (Some ''noodles''))"

definition dinner :: ExpenseCreate where
  "dinner = mk_ExpenseCreate ''Dinner'' 30 ''Food'' Omitted"

definition bus :: ExpenseCreate where
  "bus = mk_ExpenseCreate ''Bus'' 20 ''Transport'' (Supplied None)"

definition three_expenses :: database where
  "three_expenses = run [CreateExpense lunch 1000, CreateExpense dinner 3000, CreateExpense bus 2000]"

definition six_expenses :: database where
  "six_expenses =
     run [CreateExpense lunch 1000, CreateExpense dinner 3000, CreateExpense bus 2000,
          CreateExpense dinner 6000, CreateExpense bus 5000, CreateExpense lunch 4000]"

text \<open>Budget requests for the category Food in two months, and for Transport.\<close>

definition food_may :: BudgetCreate where
  "food_may = \<lparr>bc_category = ''Food'', bc_amount = 10, bc_month = ''May'', bc_year = 2024\<rparr>"

definition food_june_100 :: BudgetCreate where
  "food_june_100 =
     \<lparr>bc_category = ''Food'', bc_amount = 100, bc_month = ''June'', bc_year = 2024\<rparr>"

definition food_june_200 :: BudgetCreate where
  "food_june_200 =
     \<lparr>bc_category = ''Food'', bc_amount = 200, bc_month = ''June'', bc_year = 2024\<rparr>"

definition transport_june :: BudgetCreate where
  "transport_june =
     \<lparr>bc_category = ''Transport'', bc_amount = 40, bc_month = ''June'', bc_year = 2024\<rparr>"

text \<open>The storage after one budget for Food in May 2024 has been created.\<close>

definition food_may_db :: database where
  "food_may_db = run [CreateBudget food_may]"

text \<open>An identifier beyond the largest 64-bit integer.\<close>

definition too_large :: int where
  "too_large = 9223372036854775808"

section \<open>Lookup and row ids\<close>

lemma find_id_None: "List.find (\<lambda>e. e_id e = i) xs = None \<longleftrightarrow> i \<notin> e_id ` set xs"
  by (auto simp: find_None_iff)

lemma find_id_Some: "List.find (\<lambda>e. e_id e = i) xs = Some e \<Longrightarrow> e \<in> set xs \<and> e_id e = i"
  by (auto simp: find_Some_iff)

lemma find_id_distinct:
  "distinct (map e_id xs) \<Longrightarrow> e \<in> set xs \<Longrightarrow> List.find (\<lambda>x. e_id x = e_id e) xs = Some e"
  by (induction xs) (auto simp: image_iff)

lemma next_rowid_fresh: "i \<in> set ids \<Longrightarrow> i < next_rowid ids"
proof -
  assume a: "i \<in> set ids"
  then have "ids \<noteq> []" by auto
  moreover have "i \<le> Max (set ids)" using a by simp
  ultimately show ?thesis by (simp add: next_rowid_def)
qed

lemma next_rowid_bounds:
  assumes "\<forall>i\<in>set ids. 1 \<le> i \<and> i \<le> n" and "0 \<le> n"
  shows "1 \<le> next_rowid ids \<and> next_rowid ids \<le> n + 1"
proof (cases "ids = []")
  case True
  then show ?thesis using assms(2) by (simp add: next_rowid_def)
next
  case False
  then have "Max (set ids) \<in> set ids" by (intro Max_in) simp_all
  then have "1 \<le> Max (set ids) \<and> Max (set ids) \<le> n" using assms(1) by blast
  then show ?thesis using False by (simp add: next_rowid_def)
qed

lemma find_append_fresh:
  "\<forall>x\<in>set xs. \<not> P x \<Longrightarrow> P y \<Longrightarrow> List.find P (xs @ [y]) = Some y"
  by (induction xs) auto

lemma find_filter_None: "List.find P (filter (\<lambda>x. \<not> P x) xs) = None"
  by (simp add: find_None_iff)

lemma find_map_upd:
  "List.find (\<lambda>e. e_id e = i) xs = Some e \<Longrightarrow> e_id (f e) = i \<Longrightarrow>
   List.find (\<lambda>e. e_id e = i) (map (\<lambda>e. if e_id e = i then f e else e) xs) = Some (f e)"
  by (induction xs) (auto split: if_splits)

lemma e_id_set_attrs: "e_id (set_attrs p e) = e_id e"
  by (simp add: set_attrs_def)

lemma not_int64_too_large: "\<not> int64 too_large"
  by (simp add: int64_def too_large_def)

lemma three_expenses_eq:
  "three_expenses =
     \<lparr>db_expenses =
        [\<lparr>e_id = 1, e_title = ''Lunch'', e_amount = 50, e_category = ''Food'',
          e_description = Some ''noodles'', e_date = 1000\<rparr>,
         \<lparr>e_id = 2, e_title = ''Dinner'', e_amount = 30, e_category = ''Food'',
          e_description = None, e_date = 3000\<rparr>,
         \<lparr>e_id = 3, e_title = ''Bus'', e_amount = 20, e_category = ''Transport'',
          e_description = None, e_date = 2000\<rparr>],
      db_budgets = []\<rparr>"
  by (simp add: three_expenses_def run_def empty_db_def create_expense_def next_rowid_def
        lunch_def dinner_def bus_def mk_ExpenseCreate_def Let_def)

section \<open>The expense handlers, case by case\<close>

lemma get_expense_overflow: "\<not> int64 i \<Longrightarrow> get_expense i db = (Inl OverflowError, db)"
  by (simp add: get_expense_def)

lemma update_expense_overflow: "\<not> int64 i \<Longrightarrow> update_expense i p db = (Inl OverflowError, db)"
  by (simp add: update_expense_def)

lemma delete_expense_overflow: "\<not> int64 i \<Longrightarrow> delete_expense i db = (Inl OverflowError, db)"
  by (simp add: delete_expense_def)

lemma get_expense_None:
  "int64 i \<Longrightarrow> List.find (\<lambda>e. e_id e = i) (db_expenses db) = None \<Longrightarrow>
   get_expense i db = (Inl NotFound, db)"
  by (simp add: get_expense_def)

lemma get_expense_Some:
  "int64 i \<Longrightarrow> List.find (\<lambda>e. e_id e = i) (db_expenses db) = Some e \<Longrightarrow>
   get_expense i db = (Inr e, db)"
  by (simp add: get_expense_def)

lemma update_expense_None:
  "int64 i \<Longrightarrow> List.find (\<lambda>e. e_id e = i) (db_expenses db) = None \<Longrightarrow>
   update_expense i p db = (Inl NotFound, db)"
  by (simp add: update_expense_def)

lemma update_expense_Some:
  "int64 i \<Longrightarrow> List.find (\<lambda>e. e_id e = i) (db_expenses db) = Some e \<Longrightarrow>
   update_expense i p db =
     (Inr (set_attrs p e),
      db\<lparr>db_expenses := map (\<lambda>e. if e_id e = i then set_attrs p e else e) (db_expenses db)\<rparr>)"
  by (simp add: update_expense_def)

lemma delete_expense_None:
  "int64 i \<Longrightarrow> List.find (\<lambda>e. e_id e = i) (db_expenses db) = None \<Longrightarrow>
   delete_expense i db = (Inl NotFound, db)"
  by (simp add: delete_expense_def)

lemma delete_expense_Some:
  "int64 i \<Longrightarrow> List.find (\<lambda>e. e_id e = i) (db_expenses db) = Some e \<Longrightarrow>
   delete_expense i db =
     (Inr ''Expense deleted successfully'',
      db\<lparr>db_expenses := filter (\<lambda>e. e_id e \<noteq> i) (db_expenses db)\<rparr>)"
  by (simp add: delete_expense_def)

lemma update_expense_stored:
  assumes "int64 i" and "List.find (\<lambda>e. e_id e = i) (db_expenses db) = Some old"
  shows "get_expense i (snd (update_expense i p db)) =
           (Inr (set_attrs p old), snd (update_expense i p db))"
proof -
  have i: "e_id old = i" using find_id_Some[OF assms(2)] by simp
  have "List.find (\<lambda>e. e_id e = i)
          (map (\<lambda>e. if e_id e = i then set_attrs p e else e) (db_expenses db))
        = Some (set_attrs p old)"
    using assms(2) i by (intro find_map_upd) (simp_all add: e_id_set_attrs)
  then show ?thesis
    using assms(1) by (simp add: update_expense_Some[OF assms] get_expense_def)
qed

section \<open>Claims about the expense service\<close>

text \<open>
  Claim C5. Each of get, update and delete is to fail with NotFound exactly when no
  stored expense has the identifier, for every identifier. This holds for every
  identifier that fits the signed 64-bit integer of the storage; and a request that fails
  with NotFound leaves the storage as it was: no row is created, changed or removed.
\<close>

theorem not_found_iff_absent_in_range:
  "(int64 i \<longrightarrow>
      (fst (get_expense i db) = Inl NotFound \<longleftrightarrow> i \<notin> e_id ` set (db_expenses db)) \<and>
      (fst (update_expense i p db) = Inl NotFound \<longleftrightarrow> i \<notin> e_id ` set (db_expenses db)) \<and>
      (fst (delete_expense i db) = Inl NotFound \<longleftrightarrow> i \<notin> e_id ` set (db_expenses db))) \<and>
   (fst (get_expense i db) = Inl NotFound \<longrightarrow> snd (get_expense i db) = db) \<and>
   (fst (update_expense i p db) = Inl NotFound \<longrightarrow> snd (update_expense i p db) = db) \<and>
   (fst (delete_expense i db) = Inl NotFound \<longrightarrow> snd (delete_expense i db) = db)"
proof (cases "int64 i")
  case False
  then show ?thesis
    by (simp add: get_expense_overflow update_expense_overflow delete_expense_overflow)
next
  case True
  show ?thesis
  proof (cases "List.find (\<lambda>e. e_id e = i) (db_expenses db)")
    case None
    moreover from None have "i \<notin> e_id ` set (db_expenses db)"
      using find_id_None[of i "db_expenses db"] by simp
    ultimately show ?thesis
      using True by (simp add: get_expense_None update_expense_None delete_expense_None)
  next
    case (Some e)
    moreover from Some have "i \<in> e_id ` set (db_expenses db)"
      using find_id_None[of i "db_expenses db"] by simp
    ultimately show ?thesis
      using True by (simp add: get_expense_Some update_expense_Some delete_expense_Some)
  qed
qed

theorem not_found_iff_absent_in_range_witness:
  "fst (get_expense 7 three_expenses) = Inl NotFound \<and>
   fst (update_expense 7 lunch three_expenses) = Inl NotFound \<and>
   fst (delete_expense 7 three_expenses) = Inl NotFound \<and>
   snd (get_expense 7 three_expenses) = three_expenses \<and>
   snd (update_expense 7 lunch three_expenses) = three_expenses \<and>
   snd (delete_expense 7 three_expenses) = three_expenses \<and>
   fst (get_expense 2 three_expenses) \<noteq> Inl NotFound \<and>
   fst (update_expense 2 lunch three_expenses) \<noteq> Inl NotFound \<and>
   fst (delete_expense 2 three_expenses) \<noteq> Inl NotFound"
proof -
  have r: "int64 7" "int64 2" by (simp_all add: int64_def)
  have absent: "7 \<notin> e_id ` set (db_expenses three_expenses)"
    by (simp add: three_expenses_eq)
  have present: "2 \<in> e_id ` set (db_expenses three_expenses)"
    by (simp add: three_expenses_eq)
  show ?thesis
    using r absent present
      not_found_iff_absent_in_range[of 7 three_expenses lunch]
      not_found_iff_absent_in_range[of 2 three_expenses lunch]
    by blast
qed

text \<open>
  The claim as stated fails at an identifier that does not fit: no stored expense has it,
  and each of the three requests ends in an overflow error of the query, not in NotFound.
\<close>

theorem not_found_iff_absent_counterexample:
  "\<not> (fst (get_expense too_large three_expenses) = Inl NotFound
        \<longleftrightarrow> too_large \<notin> e_id ` set (db_expenses three_expenses)) \<and>
   \<not> (fst (update_expense too_large lunch three_expenses) = Inl NotFound
        \<longleftrightarrow> too_large \<notin> e_id ` set (db_expenses three_expenses)) \<and>
   \<not> (fst (delete_expense too_large three_expenses) = Inl NotFound
        \<longleftrightarrow> too_large \<notin> e_id ` set (db_expenses three_expenses)) \<and>
   fst (get_expense too_large three_expenses) = Inl OverflowError \<and>
   fst (update_expense too_large lunch three_expenses) = Inl OverflowError \<and>
   fst (delete_expense too_large three_expenses) = Inl OverflowError"
proof -
  have absent: "too_large \<notin> e_id ` set (db_expenses three_expenses)"
    by (simp add: three_expenses_eq too_large_def)
  show ?thesis
    using absent
    by (simp add: get_expense_overflow update_expense_overflow delete_expense_overflow
          not_int64_too_large)
qed

text \<open>
  Claim C6. For every creation payload, create followed by get on the id of the returned
  record succeeds and returns the record that create returned; and delete of an id
  followed by get of that id fails with NotFound. The ids are those the storage holds:
  the table has an id left to give to the new row, and the id deleted and looked up is a
  64-bit integer, as the id of every stored row is.
\<close>

theorem create_get_delete_get:
  "(expense_rowid_available db \<longrightarrow>
      get_expense (e_id (fst (create_expense p now db))) (snd (create_expense p now db))
        = (Inr (fst (create_expense p now db)), snd (create_expense p now db))) \<and>
   (int64 i \<longrightarrow> fst (get_expense i (snd (delete_expense i db))) = Inl NotFound)"
proof (intro conjI impI)
  assume av: "expense_rowid_available db"
  let ?n = "next_rowid (map e_id (db_expenses db))"
  have "\<forall>x\<in>set (db_expenses db). \<not> e_id x = ?n"
    using next_rowid_fresh[of _ "map e_id (db_expenses db)"] by fastforce
  then show "get_expense (e_id (fst (create_expense p now db))) (snd (create_expense p now db))
     = (Inr (fst (create_expense p now db)), snd (create_expense p now db))"
    using av
    by (simp add: get_expense_def create_expense_def expense_rowid_available_def Let_def
          find_append_fresh)
next
  assume r: "int64 i"
  show "fst (get_expense i (snd (delete_expense i db))) = Inl NotFound"
  proof (cases "List.find (\<lambda>e. e_id e = i) (db_expenses db)")
    case None
    then show ?thesis using r by (simp add: get_expense_None delete_expense_None)
  next
    case (Some a)
    then show ?thesis
      using r by (simp add: get_expense_def delete_expense_Some find_filter_None)
  qed
qed

theorem create_get_delete_get_witness:
  "fst (get_expense (e_id (fst (create_expense lunch 4000 three_expenses)))
         (snd (create_expense lunch 4000 three_expenses)))
     = Inr (fst (create_expense lunch 4000 three_expenses)) \<and>
   fst (get_expense 2 (snd (delete_expense 2 three_expenses))) = Inl NotFound"
proof -
  have av: "expense_rowid_available three_expenses"
    by (simp add: expense_rowid_available_def three_expenses_eq next_rowid_def int64_def)
  have r: "int64 2" by (simp add: int64_def)
  show ?thesis
    using av r create_get_delete_get[of three_expenses lunch 4000 2] by simp
qed

text \<open>
  Claim C4. For a stored expense, update of its id followed by get of that id returns a
  record whose title, amount, category and description are the values given to update,
  and whose date and id are those of the record before the update. The table is one that
  the storage can hold: its ids are distinct, and the id of the expense is a 64-bit
  integer.
\<close>

theorem update_then_get:
  assumes "expense_ids_unique db" and "old \<in> set (db_expenses db)" and "int64 (e_id old)"
  shows "\<exists>e. fst (get_expense (e_id old) (snd (update_expense (e_id old) p db))) = Inr e \<and>
             e_title e = title p \<and> e_amount e = amount p \<and> e_category e = category p \<and>
             e_description e = description p \<and>
             e_date e = e_date old \<and> e_id e = e_id old"
proof -
  have "List.find (\<lambda>e. e_id e = e_id old) (db_expenses db) = Some old"
    using assms(1,2) by (simp add: expense_ids_unique_def find_id_distinct)
  then have "fst (get_expense (e_id old) (snd (update_expense (e_id old) p db)))
               = Inr (set_attrs p old)"
    using assms(3) by (simp add: update_expense_stored)
  then show ?thesis by (simp add: set_attrs_def)
qed

theorem update_then_get_witness:
  "\<exists>e. fst (get_expense 2 (snd (update_expense 2 lunch three_expenses))) = Inr e \<and>
        e_title e = ''Lunch'' \<and> e_amount e = 50 \<and> e_category e = ''Food'' \<and>
        e_description e = Some ''noodles'' \<and> e_date e = 3000 \<and> e_id e = 2"
proof -
  let ?old = "\<lparr>e_id = 2, e_title = ''Dinner'', e_amount = 30, e_category = ''Food'',
               e_description = None, e_date = 3000\<rparr>"
  have u: "expense_ids_unique three_expenses"
    by (simp add: three_expenses_eq expense_ids_unique_def)
  have m: "?old \<in> set (db_expenses three_expenses)"
    by (simp add: three_expenses_eq)
  have r: "int64 (e_id ?old)" by (simp add: int64_def)
  show ?thesis
    using update_then_get[OF u m r, of lunch] by (simp add: lunch_def mk_ExpenseCreate_def)
qed

text \<open>
  Claim C10. For a stored expense with a description, an update whose payload omits the
  description stores no description: the omitted field takes the default of the payload
  class and is written like the other fields, so the previous value is lost. The table is
  one that the storage can hold: its ids are distinct, and the id of the expense is a
  64-bit integer.
\<close>

theorem update_omitted_description:
  assumes "expense_ids_unique db" and "old \<in> set (db_expenses db)" and "int64 (e_id old)"
    and "e_description old = Some d"
  shows "\<exists>e. fst (get_expense (e_id old)
                   (snd (update_expense (e_id old) (mk_ExpenseCreate t a c Omitted) db))) = Inr e \<and>
             e_description e = None \<and> e_description e \<noteq> e_description old"
proof -
  have "List.find (\<lambda>e. e_id e = e_id old) (db_expenses db) = Some old"
    using assms(1,2) by (simp add: expense_ids_unique_def find_id_distinct)
  then have "fst (get_expense (e_id old)
                (snd (update_expense (e_id old) (mk_ExpenseCreate t a c Omitted) db)))
               = Inr (set_attrs (mk_ExpenseCreate t a c Omitted) old)"
    using assms(3) by (simp add: update_expense_stored)
  then show ?thesis using assms(4) by (simp add: set_attrs_def mk_ExpenseCreate_def)
qed

theorem update_omitted_description_witness:
  "\<exists>e. fst (get_expense 1
              (snd (update_expense 1 (mk_ExpenseCreate ''Brunch'' 12 ''Food'' Omitted)
                      three_expenses))) = Inr e \<and>
        e_description e = None"
proof -
  let ?old = "\<lparr>e_id = 1, e_title = ''Lunch'', e_amount = 50, e_category = ''Food'',
               e_description = Some ''noodles'', e_date = 1000\<rparr>"
  have u: "expense_ids_unique three_expenses"
    by (simp add: three_expenses_eq expense_ids_unique_def)
  have m: "?old \<in> set (db_expenses three_expenses)"
    by (simp add: three_expenses_eq)
  have r: "int64 (e_id ?old)" by (simp add: int64_def)
  have d: "e_description ?old = Some ''noodles''" by simp
  show ?thesis
    using update_omitted_description[OF u m r d, of "''Brunch''" 12 "''Food''"] by auto
qed

section \<open>The primary key of the expenses in reachable states\<close>

lemma db_expenses_create_expense:
  "db_expenses (snd (create_expense p now db)) =
     db_expenses db @ [fst (create_expense p now db)]"
  by (simp add: create_expense_def Let_def)

lemma e_id_create_expense:
  "e_id (fst (create_expense p now db)) = next_rowid (map e_id (db_expenses db))"
  by (simp add: create_expense_def Let_def)

lemma map_e_id_set_attrs:
  "map e_id (map (\<lambda>e. if P e then set_attrs p e else e) xs) = map e_id xs"
  by (induction xs) (simp_all add: e_id_set_attrs)

lemma map_e_id_update_expense:
  "map e_id (db_expenses (snd (update_expense i p db))) = map e_id (db_expenses db)"
proof (cases "int64 i")
  case False
  then show ?thesis by (simp add: update_expense_overflow)
next
  case True
  show ?thesis
  proof (cases "List.find (\<lambda>e. e_id e = i) (db_expenses db)")
    case None
    then show ?thesis using True by (simp add: update_expense_None)
  next
    case (Some e)
    show ?thesis
      by (simp add: update_expense_Some[OF True Some] map_e_id_set_attrs del: map_map)
  qed
qed

lemma db_expenses_delete_expense:
  "db_expenses (snd (delete_expense i db)) = db_expenses db \<or>
   db_expenses (snd (delete_expense i db)) = filter (\<lambda>e. e_id e \<noteq> i) (db_expenses db)"
proof (cases "int64 i")
  case False
  then show ?thesis by (simp add: delete_expense_overflow)
next
  case True
  show ?thesis
  proof (cases "List.find (\<lambda>e. e_id e = i) (db_expenses db)")
    case None
    then show ?thesis using True by (simp add: delete_expense_None)
  next
    case (Some e)
    then show ?thesis using True by (simp add: delete_expense_Some)
  qed
qed

lemma db_expenses_get_expenses: "db_expenses (snd (get_expenses skip limit db)) = db_expenses db"
  by (simp add: get_expenses_def Let_def)

lemma db_expenses_get_expense: "db_expenses (snd (get_expense i db)) = db_expenses db"
  by (simp add: get_expense_def split: option.split)

lemma db_expenses_create_budget: "db_expenses (snd (create_budget budget db)) = db_expenses db"
  by (simp add: create_budget_def Let_def split: option.split)

lemma db_expenses_get_summary: "db_expenses (snd (get_summary db)) = db_expenses db"
  by (simp add: get_summary_def Let_def)

lemma create_expense_ids_unique:
  assumes "expense_ids_unique db"
  shows "expense_ids_unique (snd (create_expense p now db))"
proof -
  have "next_rowid (map e_id (db_expenses db)) \<notin> set (map e_id (db_expenses db))"
    using next_rowid_fresh[of "next_rowid (map e_id (db_expenses db))" "map e_id (db_expenses db)"]
    by blast
  then show ?thesis
    using assms
    by (simp add: expense_ids_unique_def db_expenses_create_expense e_id_create_expense)
qed

lemma update_expense_ids_unique:
  "expense_ids_unique db \<Longrightarrow> expense_ids_unique (snd (update_expense i p db))"
  by (simp only: expense_ids_unique_def map_e_id_update_expense)

lemma delete_expense_ids_unique:
  assumes "expense_ids_unique db"
  shows "expense_ids_unique (snd (delete_expense i db))"
  using assms db_expenses_delete_expense[of i db]
  by (auto simp: expense_ids_unique_def distinct_map_filter)

lemma serve_expense_ids_unique:
  "expense_ids_unique db \<Longrightarrow> expense_ids_unique (serve r db)"
proof (cases r)
  case (CreateExpense p now)
  assume "expense_ids_unique db"
  then show ?thesis using CreateExpense by (simp add: create_expense_ids_unique)
next
  case (UpdateExpense i p)
  assume "expense_ids_unique db"
  then show ?thesis using UpdateExpense by (simp add: update_expense_ids_unique)
next
  case (DeleteExpense i)
  assume "expense_ids_unique db"
  then show ?thesis using DeleteExpense by (simp add: delete_expense_ids_unique)
qed (simp_all add: expense_ids_unique_def db_expenses_get_expenses db_expenses_get_expense
       db_expenses_create_budget db_expenses_get_summary get_budgets_def)

lemma fold_serve_expense_ids_unique:
  "expense_ids_unique db \<Longrightarrow> expense_ids_unique (fold serve rs db)"
  by (induction rs arbitrary: db) (simp_all add: serve_expense_ids_unique)

text \<open>Every reachable state has distinct expense ids.\<close>

lemma run_expense_ids_unique: "expense_ids_unique (run rs)"
proof -
  have "expense_ids_unique empty_db" by (simp add: empty_db_def expense_ids_unique_def)
  then show ?thesis unfolding run_def by (rule fold_serve_expense_ids_unique)
qed

text \<open>The ids of a reachable state lie between 1 and the number of requests served.\<close>

lemma ids_bounded_subset:
  assumes "\<forall>e\<in>set xs. 1 \<le> e_id e \<and> e_id e \<le> n" and "set ys \<subseteq> set xs"
  shows "\<forall>e\<in>set ys. 1 \<le> e_id e \<and> e_id e \<le> n + 1"
proof
  fix e assume "e \<in> set ys"
  then have "e \<in> set xs" using assms(2) by blast
  then have "1 \<le> e_id e \<and> e_id e \<le> n" using assms(1) by blast
  then show "1 \<le> e_id e \<and> e_id e \<le> n + 1" by simp
qed

lemma serve_ids_bounded:
  assumes "\<forall>e\<in>set (db_expenses db). 1 \<le> e_id e \<and> e_id e \<le> n" and "0 \<le> n"
  shows "\<forall>e\<in>set (db_expenses (serve r db)). 1 \<le> e_id e \<and> e_id e \<le> n + 1"
proof (cases r)
  case (CreateExpense p now)
  have "\<forall>i\<in>set (map e_id (db_expenses db)). 1 \<le> i \<and> i \<le> n"
    using assms(1) by simp
  then have "1 \<le> next_rowid (map e_id (db_expenses db)) \<and>
             next_rowid (map e_id (db_expenses db)) \<le> n + 1"
    using assms(2) by (rule next_rowid_bounds)
  then show ?thesis
    using assms(1) CreateExpense
    by (auto simp: db_expenses_create_expense e_id_create_expense)
next
  case (UpdateExpense i p)
  have "set (map e_id (db_expenses (serve r db))) = set (map e_id (db_expenses db))"
    using UpdateExpense by (simp only: serve.simps map_e_id_update_expense)
  then have eq: "e_id ` set (db_expenses (serve r db)) = e_id ` set (db_expenses db)"
    by (simp only: set_map)
  show ?thesis
  proof
    fix e assume "e \<in> set (db_expenses (serve r db))"
    then have "e_id e \<in> e_id ` set (db_expenses db)" using eq by blast
    then obtain e' where "e' \<in> set (db_expenses db)" "e_id e = e_id e'" by blast
    then show "1 \<le> e_id e \<and> e_id e \<le> n + 1" using assms(1) by auto
  qed
next
  case (DeleteExpense i)
  have "set (db_expenses (serve r db)) \<subseteq> set (db_expenses db)"
    using DeleteExpense db_expenses_delete_expense[of i db] by auto
  with assms(1) show ?thesis by (rule ids_bounded_subset)
next
  case (GetExpenses skip limit)
  then have "set (db_expenses (serve r db)) \<subseteq> set (db_expenses db)"
    by (simp add: db_expenses_get_expenses)
  with assms(1) show ?thesis by (rule ids_bounded_subset)
next
  case (GetExpense i)
  then have "set (db_expenses (serve r db)) \<subseteq> set (db_expenses db)"
    by (simp add: db_expenses_get_expense)
  with assms(1) show ?thesis by (rule ids_bounded_subset)
next
  case (CreateBudget budget)
  then have "set (db_expenses (serve r db)) \<subseteq> set (db_expenses db)"
    by (simp add: db_expenses_create_budget)
  with assms(1) show ?thesis by (rule ids_bounded_subset)
next
  case GetBudgets
  then have "set (db_expenses (serve r db)) \<subseteq> set (db_expenses db)"
    by (simp add: get_budgets_def)
  with assms(1) show ?thesis by (rule ids_bounded_subset)
next
  case GetSummary
  then have "set (db_expenses (serve r db)) \<subseteq> set (db_expenses db)"
    by (simp add: db_expenses_get_summary)
  with assms(1) show ?thesis by (rule ids_bounded_subset)
qed

lemma fold_serve_ids_bounded:
  assumes "\<forall>e\<in>set (db_expenses db). 1 \<le> e_id e \<and> e_id e \<le> n" and "0 \<le> n"
  shows "\<forall>e\<in>set (db_expenses (fold serve rs db)). 1 \<le> e_id e \<and> e_id e \<le> n + int (length rs)"
  using assms
proof (induction rs arbitrary: db n)
  case Nil
  then show ?case by simp
next
  case (Cons r rs)
  have "\<forall>e\<in>set (db_expenses (serve r db)). 1 \<le> e_id e \<and> e_id e \<le> n + 1"
    using Cons.prems by (rule serve_ids_bounded)
  moreover have "0 \<le> n + 1" using Cons.prems(2) by simp
  ultimately have
    "\<forall>e\<in>set (db_expenses (fold serve rs (serve r db))).
       1 \<le> e_id e \<and> e_id e \<le> (n + 1) + int (length rs)"
    by (rule Cons.IH)
  then show ?case by (auto simp: algebra_simps)
qed

lemma run_ids_bounded:
  "\<forall>e\<in>set (db_expenses (run rs)). 1 \<le> e_id e \<and> e_id e \<le> int (length rs)"
  using fold_serve_ids_bounded[of empty_db 0 rs] by (simp add: run_def empty_db_def)

text \<open>
  Below \<open>2 ^ 63 - 1\<close> requests, every stored id is a 64-bit integer and the table has an id
  left to give.
\<close>

lemma run_ids_int64:
  assumes "int (length rs) < 9223372036854775807" and "e \<in> set (db_expenses (run rs))"
  shows "int64 (e_id e)"
  using assms run_ids_bounded[of rs] by (auto simp: int64_def)

lemma run_rowid_available:
  assumes "int (length rs) < 9223372036854775807"
  shows "expense_rowid_available (run rs)"
proof -
  have "\<forall>i\<in>set (map e_id (db_expenses (run rs))). 1 \<le> i \<and> i \<le> int (length rs)"
    using run_ids_bounded[of rs] by simp
  then have "1 \<le> next_rowid (map e_id (db_expenses (run rs))) \<and>
             next_rowid (map e_id (db_expenses (run rs))) \<le> int (length rs) + 1"
    by (rule next_rowid_bounds) simp
  then show ?thesis
    using assms by (simp add: expense_rowid_available_def int64_def)
qed

section \<open>The budget upsert, case by case\<close>

lemma budget_key_amount: "budget_key (b\<lparr>b_amount := a\<rparr>) = budget_key b"
  by (simp add: budget_key_def)

lemma same_key_iff:
  "same_key budget b \<longleftrightarrow> budget_key b = (bc_category budget, bc_month budget, bc_year budget)"
  by (auto simp: same_key_def budget_key_def)

lemma map_key_amount_upd:
  "map budget_key (map (\<lambda>b. if P b then b\<lparr>b_amount := a\<rparr> else b) bs) = map budget_key bs"
  by (induction bs) (simp_all add: budget_key_amount)

lemma create_budget_overflow:
  "\<not> int64 (bc_year budget) \<Longrightarrow> create_budget budget db = (Inl OverflowError, db)"
  by (simp add: create_budget_def)

lemma create_budget_found:
  "int64 (bc_year budget) \<Longrightarrow>
   List.find (same_key budget) (db_budgets db) = Some existing_budget \<Longrightarrow>
   create_budget budget db =
     (Inr (existing_budget\<lparr>b_amount := bc_amount budget\<rparr>),
      db\<lparr>db_budgets :=
           map (\<lambda>b. if b_id b = b_id existing_budget
                     then b\<lparr>b_amount := bc_amount budget\<rparr> else b)
               (db_budgets db)\<rparr>)"
  by (simp add: create_budget_def)

lemma create_budget_conflict:
  "int64 (bc_year budget) \<Longrightarrow>
   List.find (same_key budget) (db_budgets db) = None \<Longrightarrow>
   bc_category budget \<in> b_category ` set (db_budgets db) \<Longrightarrow>
   create_budget budget db = (Inl IntegrityError, db)"
  by (simp add: create_budget_def Let_def)

lemma create_budget_insert:
  "int64 (bc_year budget) \<Longrightarrow>
   List.find (same_key budget) (db_budgets db) = None \<Longrightarrow>
   bc_category budget \<notin> b_category ` set (db_budgets db) \<Longrightarrow>
   create_budget budget db =
     (Inr \<lparr>b_id = next_rowid (map b_id (db_budgets db)), b_category = bc_category budget,
           b_amount = bc_amount budget, b_month = bc_month budget, b_year = bc_year budget\<rparr>,
      db\<lparr>db_budgets := db_budgets db @
           [\<lparr>b_id = next_rowid (map b_id (db_budgets db)), b_category = bc_category budget,
             b_amount = bc_amount budget, b_month = bc_month budget,
             b_year = bc_year budget\<rparr>]\<rparr>)"
  by (simp add: create_budget_def Let_def)

lemma create_budget_keys_unique:
  assumes "budget_keys_unique db"
  shows "budget_keys_unique (snd (create_budget budget db))"
proof (cases "int64 (bc_year budget)")
  case False
  then show ?thesis using assms by (simp add: create_budget_overflow)
next
  case year: True
  show ?thesis
  proof (cases "List.find (same_key budget) (db_budgets db)")
    case (Some existing_budget)
    have "map budget_key (db_budgets (snd (create_budget budget db)))
            = map budget_key (db_budgets db)"
      by (simp add: create_budget_found[OF year Some] map_key_amount_upd del: map_map)
    then show ?thesis
      using assms by (simp only: budget_keys_unique_def)
  next
    case None
    then have nokey:
      "(bc_category budget, bc_month budget, bc_year budget) \<notin> budget_key ` set (db_budgets db)"
      by (auto simp: find_None_iff same_key_iff)
    show ?thesis
    proof (cases "bc_category budget \<in> b_category ` set (db_budgets db)")
      case True
      with year None assms show ?thesis by (simp add: create_budget_conflict)
    next
      case False
      with year None assms nokey show ?thesis
        by (simp add: create_budget_insert budget_keys_unique_def budget_key_def)
    qed
  qed
qed

lemma db_budgets_create_expense: "db_budgets (snd (create_expense p now db)) = db_budgets db"
  by (simp add: create_expense_def Let_def)

lemma db_budgets_get_expenses: "db_budgets (snd (get_expenses skip limit db)) = db_budgets db"
  by (simp add: get_expenses_def Let_def)

lemma db_budgets_get_expense: "db_budgets (snd (get_expense i db)) = db_budgets db"
  by (simp add: get_expense_def split: option.split)

lemma db_budgets_update_expense: "db_budgets (snd (update_expense i p db)) = db_budgets db"
  by (simp add: update_expense_def split: option.split)

lemma db_budgets_delete_expense: "db_budgets (snd (delete_expense i db)) = db_budgets db"
  by (simp add: delete_expense_def split: option.split)

lemma db_budgets_get_summary: "db_budgets (snd (get_summary db)) = db_budgets db"
  by (simp add: get_summary_def Let_def)

lemma serve_keys_unique:
  "budget_keys_unique db \<Longrightarrow> budget_keys_unique (serve r db)"
proof (cases r)
  case (CreateBudget budget)
  assume "budget_keys_unique db"
  then show ?thesis using CreateBudget by (simp add: create_budget_keys_unique)
qed (simp_all add: budget_keys_unique_def db_budgets_create_expense db_budgets_get_expenses
       db_budgets_get_expense db_budgets_update_expense db_budgets_delete_expense
       db_budgets_get_summary get_budgets_def)

lemma fold_serve_keys_unique:
  "budget_keys_unique db \<Longrightarrow> budget_keys_unique (fold serve rs db)"
  by (induction rs arbitrary: db) (simp_all add: serve_keys_unique)

section \<open>Claims about the budget service\<close>

text \<open>
  Claim C2. Every storage state reached from the empty database by serving requests holds
  at most one budget row per (category, month, year), and every request (the expense
  operations, the budget upsert, the budget list, the summary) preserves this.
\<close>

theorem budget_keys_unique_invariant:
  "budget_keys_unique (run rs) \<and>
   (budget_keys_unique db \<longrightarrow> budget_keys_unique (serve r db))"
proof -
  have "budget_keys_unique empty_db" by (simp add: empty_db_def budget_keys_unique_def)
  then have "budget_keys_unique (run rs)" unfolding run_def by (rule fold_serve_keys_unique)
  then show ?thesis by (simp add: serve_keys_unique)
qed

theorem budget_keys_unique_invariant_witness:
  "budget_keys_unique (run [CreateBudget food_june_100, CreateBudget transport_june,
                            CreateBudget food_june_200]) \<and>
   budget_keys_unique (serve (CreateBudget food_may)
                         (run [CreateBudget food_june_100, CreateBudget transport_june,
                               CreateBudget food_june_200]))"
  using budget_keys_unique_invariant
          [of "[CreateBudget food_june_100, CreateBudget transport_june,
                CreateBudget food_june_200]"
              "run [CreateBudget food_june_100, CreateBudget transport_june,
                    CreateBudget food_june_200]"
              "CreateBudget food_may"]
  by blast

lemma food_may_db_eq:
  "food_may_db =
     \<lparr>db_expenses = [],
      db_budgets = [\<lparr>b_id = 1, b_category = ''Food'', b_amount = 10, b_month = ''May'',
                     b_year = 2024\<rparr>]\<rparr>"
  by (simp add: food_may_db_def run_def empty_db_def create_budget_def next_rowid_def
        food_may_def int64_def Let_def)

text \<open>
  The upsert where it does insert: no stored row has the key, and no stored row has the
  category. The new row carries the payload and an id that no stored row has.
\<close>

lemma create_budget_new_category:
  assumes "int64 (bc_year budget)"
    and "List.find (same_key budget) (db_budgets db) = None"
    and "bc_category budget \<notin> b_category ` set (db_budgets db)"
  shows "\<exists>new. create_budget budget db = (Inr new, db\<lparr>db_budgets := db_budgets db @ [new]\<rparr>) \<and>
               b_id new \<notin> b_id ` set (db_budgets db) \<and>
               b_category new = bc_category budget \<and> b_amount new = bc_amount budget \<and>
               b_month new = bc_month budget \<and> b_year new = bc_year budget"
proof -
  have "next_rowid (map b_id (db_budgets db)) \<notin> set (map b_id (db_budgets db))"
    using next_rowid_fresh[of "next_rowid (map b_id (db_budgets db))" "map b_id (db_budgets db)"]
    by blast
  then show ?thesis
    by (simp add: create_budget_insert[OF assms])
qed

text \<open>
  Two upserts of one key, where the first one succeeds: the second one finds the row of
  the first, overwrites its amount and nothing else, and the key has exactly that row.
\<close>

lemma filter_key_unique:
  "distinct (map budget_key bs) \<Longrightarrow> r \<in> set bs \<Longrightarrow>
   filter (\<lambda>b. budget_key b = budget_key r) bs = [r]"
proof (induction bs)
  case Nil
  then show ?case by simp
next
  case (Cons b bs)
  show ?case
  proof (cases "b = r")
    case True
    have "\<forall>x\<in>set bs. budget_key x \<noteq> budget_key r"
      using Cons.prems(1) True by (metis distinct.simps(2) image_eqI list.simps(9) set_map)
    then have "filter (\<lambda>x. budget_key x = budget_key r) bs = []"
      by (simp add: filter_empty_conv)
    then show ?thesis using True by simp
  next
    case False
    then have "r \<in> set bs" using Cons.prems(2) by simp
    moreover have "budget_key b \<noteq> budget_key r"
      using Cons.prems(1) calculation by auto
    ultimately show ?thesis using Cons by simp
  qed
qed

lemma find_key_unique:
  "distinct (map budget_key bs) \<Longrightarrow> r \<in> set bs \<Longrightarrow>
   List.find (\<lambda>b. budget_key b = budget_key r) bs = Some r"
  by (induction bs) (auto simp: image_iff)

lemma filter_key_amount_upd:
  "filter (\<lambda>b. budget_key b = k) (map (\<lambda>b. if P b then b\<lparr>b_amount := a\<rparr> else b) bs)
     = map (\<lambda>b. if P b then b\<lparr>b_amount := a\<rparr> else b) (filter (\<lambda>b. budget_key b = k) bs)"
  by (induction bs) (simp_all add: budget_key_amount)

lemma create_budget_result_stored:
  assumes "fst (create_budget budget db) = Inr r"
  shows "int64 (bc_year budget) \<and>
         r \<in> set (db_budgets (snd (create_budget budget db))) \<and>
         budget_key r = (bc_category budget, bc_month budget, bc_year budget) \<and>
         b_amount r = bc_amount budget"
proof (cases "int64 (bc_year budget)")
  case False
  then show ?thesis using assms by (simp add: create_budget_overflow)
next
  case year: True
  show ?thesis
  proof (cases "List.find (same_key budget) (db_budgets db)")
    case (Some existing_budget)
    then have ex: "existing_budget \<in> set (db_budgets db)" "same_key budget existing_budget"
      by (auto simp: find_Some_iff)
    have r: "r = existing_budget\<lparr>b_amount := bc_amount budget\<rparr>"
      using assms by (simp add: create_budget_found[OF year Some])
    have "r \<in> (\<lambda>b. if b_id b = b_id existing_budget then b\<lparr>b_amount := bc_amount budget\<rparr> else b)
                ` set (db_budgets db)"
      using ex(1) r by (intro image_eqI[where x = existing_budget]) simp_all
    then show ?thesis
      using ex(2) r year
      by (simp add: create_budget_found[OF year Some] same_key_iff budget_key_amount)
  next
    case None
    show ?thesis
    proof (cases "bc_category budget \<in> b_category ` set (db_budgets db)")
      case True
      with year None assms show ?thesis by (simp add: create_budget_conflict)
    next
      case False
      with year None assms show ?thesis
        by (auto simp: create_budget_insert budget_key_def)
    qed
  qed
qed

lemma create_budget_twice:
  assumes "budget_keys_unique db"
    and "fst (create_budget first db) = Inr r"
    and "bc_category second = bc_category first" and "bc_month second = bc_month first"
    and "bc_year second = bc_year first"
  shows "fst (create_budget second (snd (create_budget first db)))
           = Inr (r\<lparr>b_amount := bc_amount second\<rparr>) \<and>
         filter (same_key second)
           (db_budgets (snd (create_budget second (snd (create_budget first db)))))
           = [r\<lparr>b_amount := bc_amount second\<rparr>]"
proof -
  let ?db1 = "snd (create_budget first db)"
  have u1: "distinct (map budget_key (db_budgets ?db1))"
    using create_budget_keys_unique[OF assms(1), of first] by (simp add: budget_keys_unique_def)
  have r: "r \<in> set (db_budgets ?db1)"
    "budget_key r = (bc_category first, bc_month first, bc_year first)"
    using create_budget_result_stored[OF assms(2)] by simp_all
  have year: "int64 (bc_year second)"
    using create_budget_result_stored[OF assms(2)] assms(5) by simp
  have sk: "same_key second = (\<lambda>b. budget_key b = budget_key r)"
    using r(2) assms(3-5) by (simp add: fun_eq_iff same_key_iff)
  have f: "List.find (same_key second) (db_budgets ?db1) = Some r"
    unfolding sk using u1 r(1) by (rule find_key_unique)
  have fl: "filter (\<lambda>b. budget_key b = budget_key r) (db_budgets ?db1) = [r]"
    using u1 r(1) by (rule filter_key_unique)
  show ?thesis
    by (simp add: create_budget_found[OF year f] sk filter_key_amount_upd fl)
qed

text \<open>
  Claim C1. An upsert whose (category, month, year) matches no stored budget is to create
  and return a new budget with a fresh id, also when a stored budget has the same
  category and another month or year. Evaluated in the storage holding a budget for Food
  in May 2024, the upsert for Food in June 2024 finds no row of its key, and its insert
  is refused by the uniqueness constraint on the category column: the request ends in an
  integrity error and the storage is as before.
\<close>

theorem create_budget_other_month_rejected:
  "List.find (same_key food_june_100) (db_budgets food_may_db) = None \<and>
   create_budget food_june_100 food_may_db = (Inl IntegrityError, food_may_db)"
  by (simp add: food_may_db_eq create_budget_def same_key_def food_june_100_def int64_def
        Let_def)

text \<open>
  Claim C3. Two upserts in sequence for one key with two amounts are to leave exactly one
  budget for that key, with the second amount. Evaluated in the storage holding a budget
  for Food in May 2024, both upserts for Food in June 2024 end in an integrity error and
  no budget for that key is stored afterwards.
\<close>

theorem create_budget_twice_rejected:
  "fst (create_budget food_june_100 food_may_db) = Inl IntegrityError \<and>
   fst (create_budget food_june_200 (snd (create_budget food_june_100 food_may_db)))
     = Inl IntegrityError \<and>
   filter (same_key food_june_200)
     (db_budgets (snd (create_budget food_june_200
                         (snd (create_budget food_june_100 food_may_db))))) = []"
  by (simp add: food_may_db_eq create_budget_def same_key_def food_june_100_def
        food_june_200_def int64_def Let_def)

section \<open>Claims about the summary\<close>

lemma six_expenses_eq:
  "six_expenses =
     \<lparr>db_expenses =
        [\<lparr>e_id = 1, e_title = ''Lunch'', e_amount = 50, e_category = ''Food'',
          e_description = Some ''noodles'', e_date = 1000\<rparr>,
         \<lparr>e_id = 2, e_title = ''Dinner'', e_amount = 30, e_category = ''Food'',
          e_description = None, e_date = 3000\<rparr>,
         \<lparr>e_id = 3, e_title = ''Bus'', e_amount = 20, e_category = ''Transport'',
          e_description = None, e_date = 2000\<rparr>,
         \<lparr>e_id = 4, e_title = ''Dinner'', e_amount = 30, e_category = ''Food'',
          e_description = None, e_date = 6000\<rparr>,
         \<lparr>e_id = 5, e_title = ''Bus'', e_amount = 20, e_category = ''Transport'',
          e_description = None, e_date = 5000\<rparr>,
         \<lparr>e_id = 6, e_title = ''Lunch'', e_amount = 50, e_category = ''Food'',
          e_description = Some ''noodles'', e_date = 4000\<rparr>],
      db_budgets = []\<rparr>"
  by (simp add: six_expenses_def run_def empty_db_def create_expense_def next_rowid_def
        lunch_def dinner_def bus_def mk_ExpenseCreate_def Let_def)

lemma recent_expenses_eq:
  "recent_expenses (fst (get_summary db)) = take 5 (order_by_date_desc (db_expenses db))"
  by (simp add: get_summary_def Let_def)

lemma recent_six_expenses:
  "recent_expenses (fst (get_summary six_expenses)) =
     [\<lparr>e_id = 4, e_title = ''Dinner'', e_amount = 30, e_category = ''Food'',
       e_description = None, e_date = 6000\<rparr>,
      \<lparr>e_id = 5, e_title = ''Bus'', e_amount = 20, e_category = ''Transport'',
       e_description = None, e_date = 5000\<rparr>,
      \<lparr>e_id = 6, e_title = ''Lunch'', e_amount = 50, e_category = ''Food'',
       e_description = Some ''noodles'', e_date = 4000\<rparr>,
      \<lparr>e_id = 2, e_title = ''Dinner'', e_amount = 30, e_category = ''Food'',
       e_description = None, e_date = 3000\<rparr>,
      \<lparr>e_id = 3, e_title = ''Bus'', e_amount = 20, e_category = ''Transport'',
       e_description = None, e_date = 2000\<rparr>]"
  by (simp add: recent_expenses_eq six_expenses_eq order_by_date_desc_def)

lemma order_by_date_desc_sorted:
  "sorted_wrt (\<lambda>a b. e_date b \<le> e_date a) (order_by_date_desc rows)"
proof -
  have "sorted (map (\<lambda>e. - e_date e) (order_by_date_desc rows))"
    unfolding order_by_date_desc_def by (rule sorted_sort_key)
  then show ?thesis by (simp add: sorted_map)
qed

lemma order_by_date_desc_mset: "mset (order_by_date_desc rows) = mset rows"
  by (simp add: order_by_date_desc_def)

lemma take_before_drop:
  assumes "sorted_wrt R s" and "a \<in> set (take n s)" and "b \<in> set (drop n s)"
  shows "R a b"
proof -
  have "sorted_wrt R (take n s @ drop n s)" using assms(1) by simp
  then show ?thesis using assms(2,3) unfolding sorted_wrt_append by blast
qed

lemma mset_minus_take: "mset s - mset (take n s) = mset (drop n s)"
proof -
  have "mset s = mset (take n s) + mset (drop n s)"
    by (metis append_take_drop_id mset_append)
  then show ?thesis by simp
qed

text \<open>
  Claim C9. In every storage state the summary's recent expenses are the five stored
  expenses of the latest dates, in descending order of date: five rows of the table (all
  of them when the table has at most five), each dated no earlier than every stored
  expense that is left out.
\<close>

theorem summary_recent_expenses:
  "length (recent_expenses (fst (get_summary db))) = min 5 (length (db_expenses db)) \<and>
   mset (recent_expenses (fst (get_summary db))) \<subseteq># mset (db_expenses db) \<and>
   sorted_wrt (\<lambda>a b. e_date b \<le> e_date a) (recent_expenses (fst (get_summary db))) \<and>
   (\<forall>a\<in>set (recent_expenses (fst (get_summary db))).
      \<forall>b\<in>set (db_expenses db) - set (recent_expenses (fst (get_summary db))).
        e_date b \<le> e_date a) \<and>
   (\<forall>a\<in>set (recent_expenses (fst (get_summary db))).
      \<forall>b\<in>#mset (db_expenses db) - mset (recent_expenses (fst (get_summary db))).
        e_date b \<le> e_date a) \<and>
   (length (db_expenses db) \<le> 5 \<longrightarrow>
      mset (recent_expenses (fst (get_summary db))) = mset (db_expenses db))"
proof -
  let ?s = "order_by_date_desc (db_expenses db)"
  let ?r = "recent_expenses (fst (get_summary db))"
  have r: "?r = take 5 ?s" by (rule recent_expenses_eq)
  have ms: "mset ?s = mset (db_expenses db)" by (rule order_by_date_desc_mset)
  have len: "length ?s = length (db_expenses db)"
    by (simp add: order_by_date_desc_def)
  have set_s: "set ?s = set (db_expenses db)"
    by (simp add: order_by_date_desc_def)
  have sorted_s: "sorted_wrt (\<lambda>a b. e_date b \<le> e_date a) ?s"
    by (rule order_by_date_desc_sorted)
  have c1: "length ?r = min 5 (length (db_expenses db))"
    by (simp add: r len min.commute)
  have "mset (take 5 ?s) \<subseteq># mset ?s"
    by (metis append_take_drop_id mset_append mset_subset_eq_add_left)
  then have c2: "mset ?r \<subseteq># mset (db_expenses db)" by (simp add: r ms)
  have c3: "sorted_wrt (\<lambda>a b. e_date b \<le> e_date a) ?r"
    unfolding r using sorted_s by (rule sorted_wrt_take)
  have rest: "mset (db_expenses db) - mset ?r = mset (drop 5 ?s)"
    unfolding r ms[symmetric] by (rule mset_minus_take)
  have c5: "\<forall>a\<in>set ?r. \<forall>b\<in>#mset (db_expenses db) - mset ?r. e_date b \<le> e_date a"
    unfolding rest using take_before_drop[OF sorted_s, of _ 5] by (simp add: r)
  have "set (db_expenses db) - set ?r \<subseteq> set (drop 5 ?s)"
  proof
    fix b assume "b \<in> set (db_expenses db) - set ?r"
    then have "b \<in> set (take 5 ?s @ drop 5 ?s)" "b \<notin> set (take 5 ?s)"
      by (simp_all add: set_s r)
    then show "b \<in> set (drop 5 ?s)" by (simp only: set_append Un_iff) blast
  qed
  then have c4: "\<forall>a\<in>set ?r. \<forall>b\<in>set (db_expenses db) - set ?r. e_date b \<le> e_date a"
    using take_before_drop[OF sorted_s, of _ 5] unfolding r by blast
  have c6: "length (db_expenses db) \<le> 5 \<longrightarrow> mset ?r = mset (db_expenses db)"
    by (simp add: r len ms)
  from c1 c2 c3 c4 c5 c6 show ?thesis by blast
qed

theorem summary_recent_expenses_witness:
  "length (recent_expenses (fst (get_summary six_expenses))) = 5 \<and>
   e_date \<lparr>e_id = 1, e_title = ''Lunch'', e_amount = 50, e_category = ''Food'',
            e_description = Some ''noodles'', e_date = 1000\<rparr>
     \<le> e_date \<lparr>e_id = 3, e_title = ''Bus'', e_amount = 20, e_category = ''Transport'',
                e_description = None, e_date = 2000\<rparr> \<and>
   mset (recent_expenses (fst (get_summary three_expenses))) = mset (db_expenses three_expenses)"
proof -
  let ?left_out = "\<lparr>e_id = 1, e_title = ''Lunch'', e_amount = 50, e_category = ''Food'',
                    e_description = Some ''noodles'', e_date = 1000\<rparr>"
  let ?last = "\<lparr>e_id = 3, e_title = ''Bus'', e_amount = 20, e_category = ''Transport'',
                e_description = None, e_date = 2000\<rparr>"
  have n: "min 5 (length (db_expenses six_expenses)) = 5"
    by (simp add: six_expenses_eq)
  have kept: "?last \<in> set (recent_expenses (fst (get_summary six_expenses)))"
    by (simp add: recent_six_expenses)
  have out: "?left_out \<in> set (db_expenses six_expenses)
               - set (recent_expenses (fst (get_summary six_expenses)))"
    by (simp add: recent_six_expenses) (simp add: six_expenses_eq)
  have few: "length (db_expenses three_expenses) \<le> 5"
    by (simp add: three_expenses_eq)
  have "length (recent_expenses (fst (get_summary six_expenses))) = 5"
    using n summary_recent_expenses[of six_expenses] by (simp only:)
  moreover have "e_date ?left_out \<le> e_date ?last"
    using kept out summary_recent_expenses[of six_expenses] by blast
  moreover have "mset (recent_expenses (fst (get_summary three_expenses)))
                   = mset (db_expenses three_expenses)"
    using few summary_recent_expenses[of three_expenses] by blast
  ultimately show ?thesis by (intro conjI)
qed

section \<open>The aggregates of the summary\<close>

text \<open>
  The totals of the summary are the \<^verbatim>\<open>SUM\<close> over the amounts of all stored expenses and
  of all stored budgets, the integer 0 where the table is empty, and the remaining budget
  is their difference as Python computes it.
\<close>

lemma summary_totals_operands:
  "total_expenses (fst (get_summary db)) =
     (if db_expenses db = [] then IntZero else SqlSum (mset (map e_amount (db_expenses db)))) \<and>
   total_budget (fst (get_summary db)) =
     (if db_budgets db = [] then IntZero else SqlSum (mset (map b_amount (db_budgets db)))) \<and>
   remaining_budget (fst (get_summary db)) =
     PySub (total_budget (fst (get_summary db))) (total_expenses (fst (get_summary db)))"
  by (simp add: get_summary_def Let_def coalesce_def sql_sum_def)

lemma category_rows_amounts:
  "map snd (filter (\<lambda>r. fst r = c) (map (\<lambda>e. (e_category e, e_amount e)) xs))
     = map e_amount (filter (\<lambda>e. e_category e = c) xs)"
  by (induction xs) simp_all

text \<open>
  The category expenses hold one entry for each category that occurs among the stored
  expenses, in the order of the categories, with the \<^verbatim>\<open>SUM\<close> over the amounts of the
  expenses of that category, and no other entry.
\<close>

lemma category_expenses_groups:
  "distinct (map fst (category_expenses (fst (get_summary db)))) \<and>
   sorted (map fst (category_expenses (fst (get_summary db)))) \<and>
   set (category_expenses (fst (get_summary db))) =
     (\<lambda>c. (c, SqlSum (mset (map e_amount (filter (\<lambda>e. e_category e = c) (db_expenses db))))))
       ` e_category ` set (db_expenses db)"
proof -
  let ?rows = "map (\<lambda>e. (e_category e, e_amount e)) (db_expenses db)"
  have ce: "category_expenses (fst (get_summary db)) = group_by_sum ?rows"
    by (simp add: get_summary_def Let_def)
  have keys: "map fst (group_by_sum ?rows) = sort (remdups (map fst ?rows))"
    by (simp add: group_by_sum_def comp_def)
  have cats: "set (sort (remdups (map fst ?rows))) = e_category ` set (db_expenses db)"
    by (simp add: image_image)
  have "set (group_by_sum ?rows) =
     (\<lambda>c. (c, SqlSum (mset (map snd (filter (\<lambda>r. fst r = c) ?rows)))))
       ` set (sort (remdups (map fst ?rows)))"
    unfolding group_by_sum_def by (rule set_map)
  then have "set (group_by_sum ?rows) =
     (\<lambda>c. (c, SqlSum (mset (map e_amount (filter (\<lambda>e. e_category e = c) (db_expenses db))))))
       ` e_category ` set (db_expenses db)"
    by (simp only: category_rows_amounts cats)
  then show ?thesis
    by (simp only: ce keys) simp
qed

end
